theory Spec2Isabelle
  imports Main "HOL-Library.Word"
begin

section \<open>SalaryLens: encrypted salary aggregation with verified decryption\<close>

text \<open>
  A shallow embedding of \<^verbatim>\<open>contracts/SalaryLens.sol\<close>. The contract's storage is a
  record, every external function is a function from the storage before the call to
  either a revert or the storage after it, and the homomorphic engine (the FHE library,
  which is an external dependency of the contract) enters as a record of functions.
\<close>

subsection \<open>Solidity value types\<close>

type_synonym address = "160 word"
type_synonym bytes32 = "256 word"
type_synonym uint32 = "32 word"
type_synonym bytes = "8 word list"

subsection \<open>Events and errors\<close>

datatype event =
    SalarySubmitted address uint32
  | AverageRequested address bytes32
  | AverageDecrypted address uint32

text \<open>
  The five custom errors the contract declares, and four other ways a call can
  revert. \<open>InvalidInputProof\<close> is the revert inside \<^verbatim>\<open>FHE.fromExternal\<close>;
  \<open>CheckSignaturesRevert\<close> is the revert inside \<^verbatim>\<open>FHE.checkSignatures\<close> ("this
  reverts if invalid"), an error of the library that the contract neither catches nor
  renames; \<open>Panic_0x11\<close> is the arithmetic-overflow panic of checked arithmetic
  (\<^verbatim>\<open>pragma solidity ^0.8.24\<close>); \<open>AbiDecodeRevert\<close> is the revert of
  \<^verbatim>\<open>abi.decode\<close> on malformed data. The contract declares
  \<open>InvalidDecryptionProof\<close> ("Thrown when decryption proof verification fails") but
  has no \<^verbatim>\<open>revert InvalidDecryptionProof()\<close> statement.
\<close>

datatype error =
    AlreadySubmitted
  | NoSalariesSubmitted
  | NoPendingDecryption
  | InvalidDecryptionProof
  | HandleAlreadyUsed
  | InvalidInputProof
  | CheckSignaturesRevert
  | Panic_0x11
  | AbiDecodeRevert

subsection \<open>Storage\<close>

text \<open>
  The six state variables of the contract, in declaration order; \<open>euint32\<close> is a
  \<open>bytes32\<close> handle and an uninitialized one is \<open>bytes32(0)\<close>. The last three fields
  are state the contract writes outside its own storage: the permission relation and
  the publicly-decryptable flag held by the access-control list of the engine, and the
  log of emitted events.
\<close>

record state =
  encryptedTotal :: bytes32
  count :: uint32
  hasSubmitted :: "address \<Rightarrow> bool"
  lastDecryptedAverage :: "address \<Rightarrow> uint32"
  pendingDecryptionHandles :: "address \<Rightarrow> bytes32"
  usedHandles :: "bytes32 \<Rightarrow> bool"
  permissions :: "bytes32 \<Rightarrow> address \<Rightarrow> bool"
  public_flag :: "bytes32 \<Rightarrow> bool"
  events :: "event list"

subsection \<open>The homomorphic engine\<close>

text \<open>
  The operations of the FHE library the contract calls, as parameters:
  \<open>FHE_fromExternal sender ciphertext proof\<close> is the handle of a validated input, or
  \<open>None\<close> when the input proof does not validate for this contract and sender;
  \<open>FHE_add\<close> and \<open>FHE_div\<close> (encrypted by plaintext) return the handle of the result;
  \<open>FHE_checkSignatures handles cleartexts proof\<close> tells whether the decryption proof
  verifies. \<open>contract_address\<close> is \<^verbatim>\<open>address(this)\<close>.
\<close>

record env =
  contract_address :: address
  FHE_fromExternal :: "address \<Rightarrow> bytes32 \<Rightarrow> bytes \<Rightarrow> bytes32 option"
  FHE_add :: "bytes32 \<Rightarrow> bytes32 \<Rightarrow> bytes32"
  FHE_div :: "bytes32 \<Rightarrow> uint32 \<Rightarrow> bytes32"
  FHE_checkSignatures :: "bytes32 list \<Rightarrow> bytes \<Rightarrow> bytes \<Rightarrow> bool"

text \<open>
  Modelled from the spec: the permission registry behind \<^verbatim>\<open>FHE.allow\<close>,
  \<^verbatim>\<open>FHE.allowThis\<close> and \<^verbatim>\<open>FHE.makePubliclyDecryptable\<close> (the library's source is
  not part of the repository). A grant always succeeds and its only effect is the
  entry of the relation; marking a handle publicly decryptable is one-directional.
\<close>

definition FHE_allow :: "bytes32 \<Rightarrow> address \<Rightarrow> state \<Rightarrow> state" where
  "FHE_allow h a s = s\<lparr>permissions := (permissions s)(h := (permissions s h)(a := True))\<rparr>"

definition FHE_allowThis :: "env \<Rightarrow> bytes32 \<Rightarrow> state \<Rightarrow> state" where
  "FHE_allowThis e h s = FHE_allow h (contract_address e) s"

definition FHE_makePubliclyDecryptable :: "bytes32 \<Rightarrow> state \<Rightarrow> state" where
  "FHE_makePubliclyDecryptable h s = s\<lparr>public_flag := (public_flag s)(h := True)\<rparr>"

definition emit :: "event \<Rightarrow> state \<Rightarrow> state" where
  "emit ev s = s\<lparr>events := events s @ [ev]\<rparr>"

subsection \<open>Decoding the cleartext\<close>

text \<open>
  \<^verbatim>\<open>abi.decode(data, (uint32))\<close>: the data must hold one 32-byte word, read big-endian,
  whose value fits 32 bits; otherwise the call reverts. Bytes after the first word are
  ignored.
\<close>

definition be_value :: "bytes \<Rightarrow> nat" where
  "be_value bs = foldl (\<lambda>acc b. acc * 256 + unat b) 0 bs"

definition abi_decode_uint32 :: "bytes \<Rightarrow> uint32 option" where
  "abi_decode_uint32 data =
     (if length data < 32 then None
      else let v = be_value (take 32 data)
           in if v < 2 ^ 32 then Some (of_nat v) else None)"

subsection \<open>The external functions\<close>

text \<open>
  A call either reverts, \<open>Inl (e, s')\<close> with the error and the storage as written up to
  the revert, or returns, \<open>Inr (v, s')\<close>. The storage of a reverted call is discarded
  by \<open>transact\<close> below; it is kept in the result so that "before any state mutation"
  can be stated.
\<close>

type_synonym 'a result = "(error \<times> state) + ('a \<times> state)"

definition constructor :: state where
  "constructor =
     \<lparr>encryptedTotal = 0, count = 0, hasSubmitted = (\<lambda>_. False),
      lastDecryptedAverage = (\<lambda>_. 0), pendingDecryptionHandles = (\<lambda>_. 0),
      usedHandles = (\<lambda>_. False), permissions = (\<lambda>_ _. False),
      public_flag = (\<lambda>_. False), events = []\<rparr>"

definition addSalary :: "env \<Rightarrow> address \<Rightarrow> bytes32 \<Rightarrow> bytes \<Rightarrow> state \<Rightarrow> unit result" where
  "addSalary e msg_sender encryptedSalary inputProof s =
     (if hasSubmitted s msg_sender then Inl (AlreadySubmitted, s)
      else
        case FHE_fromExternal e msg_sender encryptedSalary inputProof of
          None \<Rightarrow> Inl (InvalidInputProof, s)
        | Some salary \<Rightarrow>
            let s1 = FHE_allowThis e salary s;
                s2 = (if count s1 = 0 then s1\<lparr>encryptedTotal := salary\<rparr>
                      else s1\<lparr>encryptedTotal := FHE_add e (encryptedTotal s1) salary\<rparr>)
            in if count s2 = 0xFFFFFFFF then Inl (Panic_0x11, s2)
               else
                 let s3 = s2\<lparr>count := count s2 + 1\<rparr>;
                     s4 = s3\<lparr>hasSubmitted := (hasSubmitted s3)(msg_sender := True)\<rparr>;
                     s5 = FHE_allowThis e (encryptedTotal s4) s4;
                     s6 = FHE_allow (encryptedTotal s5) msg_sender s5;
                     s7 = emit (SalarySubmitted msg_sender (count s6)) s6
                 in Inr ((), s7))"

definition requestAverageDecryption :: "env \<Rightarrow> address \<Rightarrow> state \<Rightarrow> bytes32 result" where
  "requestAverageDecryption e msg_sender s =
     (if count s = 0 then Inl (NoSalariesSubmitted, s)
      else
        let encryptedAverage = FHE_div e (encryptedTotal s) (count s);
            s1 = FHE_allowThis e encryptedAverage s;
            s2 = FHE_allow encryptedAverage msg_sender s1;
            s3 = FHE_makePubliclyDecryptable encryptedAverage s2;
            handle = encryptedAverage;
            s4 = s3\<lparr>pendingDecryptionHandles :=
                      (pendingDecryptionHandles s3)(msg_sender := handle)\<rparr>;
            s5 = emit (AverageRequested msg_sender handle) s4
        in Inr (handle, s5))"

definition verifyDecryption :: "env \<Rightarrow> address \<Rightarrow> bytes \<Rightarrow> bytes \<Rightarrow> state \<Rightarrow> unit result" where
  "verifyDecryption e msg_sender abiEncodedCleartexts decryptionProof s =
     (let handle = pendingDecryptionHandles s msg_sender
      in if handle = 0 then Inl (NoPendingDecryption, s)
         else if usedHandles s handle then Inl (HandleAlreadyUsed, s)
         else
           let handlesList = [handle]
           in if \<not> FHE_checkSignatures e handlesList abiEncodedCleartexts decryptionProof
              then Inl (CheckSignaturesRevert, s)
              else
                case abi_decode_uint32 abiEncodedCleartexts of
                  None \<Rightarrow> Inl (AbiDecodeRevert, s)
                | Some decryptedAverage \<Rightarrow>
                    let s1 = s\<lparr>lastDecryptedAverage :=
                                 (lastDecryptedAverage s)(msg_sender := decryptedAverage)\<rparr>;
                        s2 = s1\<lparr>usedHandles := (usedHandles s1)(handle := True)\<rparr>;
                        s3 = s2\<lparr>pendingDecryptionHandles :=
                                  (pendingDecryptionHandles s2)(msg_sender := 0)\<rparr>;
                        s4 = emit (AverageDecrypted msg_sender decryptedAverage) s3
                    in Inr ((), s4))"

subsection \<open>View functions\<close>

definition getCount :: "state \<Rightarrow> uint32" where
  "getCount s = count s"

definition hasUserSubmitted :: "state \<Rightarrow> address \<Rightarrow> bool" where
  "hasUserSubmitted s user = hasSubmitted s user"

definition getLastAverage :: "state \<Rightarrow> address \<Rightarrow> uint32" where
  "getLastAverage s user = lastDecryptedAverage s user"

definition getPendingHandle :: "state \<Rightarrow> address \<Rightarrow> bytes32" where
  "getPendingHandle s user = pendingDecryptionHandles s user"

subsection \<open>Transactions\<close>

text \<open>
  A transaction is one external call by one sender. A revert rolls the whole
  transaction back: the storage, the permission registry and the event log are those
  of before the call.
\<close>

datatype call =
    AddSalary address bytes32 bytes
  | RequestAverageDecryption address
  | VerifyDecryption address bytes bytes

datatype receipt = Reverted error | Returned | ReturnedHandle bytes32

fun transact :: "env \<Rightarrow> call \<Rightarrow> state \<Rightarrow> receipt \<times> state" where
  "transact e (AddSalary msg_sender encryptedSalary inputProof) s =
     (case addSalary e msg_sender encryptedSalary inputProof s of
        Inl (err, _) \<Rightarrow> (Reverted err, s)
      | Inr (_, s') \<Rightarrow> (Returned, s'))"
| "transact e (RequestAverageDecryption msg_sender) s =
     (case requestAverageDecryption e msg_sender s of
        Inl (err, _) \<Rightarrow> (Reverted err, s)
      | Inr (handle, s') \<Rightarrow> (ReturnedHandle handle, s'))"
| "transact e (VerifyDecryption msg_sender abiEncodedCleartexts decryptionProof) s =
     (case verifyDecryption e msg_sender abiEncodedCleartexts decryptionProof s of
        Inl (err, _) \<Rightarrow> (Reverted err, s)
      | Inr (_, s') \<Rightarrow> (Returned, s'))"

fun run :: "env \<Rightarrow> call list \<Rightarrow> state \<Rightarrow> state" where
  "run e [] s = s"
| "run e (c # cs) s = run e cs (snd (transact e c s))"

text \<open>The storage a sequence of transactions reaches from deployment.\<close>

definition reachable :: "env \<Rightarrow> call list \<Rightarrow> state" where
  "reachable e cs = run e cs constructor"

text \<open>
  \<open>latest_request e r cs s h\<close>: the handle returned by the last
  \<open>requestAverageDecryption\<close> of \<open>r\<close> that returns in the sequence \<open>cs\<close> run from
  \<open>s\<close>, and \<open>h\<close> when there is none.
\<close>

fun latest_request :: "env \<Rightarrow> address \<Rightarrow> call list \<Rightarrow> state \<Rightarrow> bytes32 \<Rightarrow> bytes32" where
  "latest_request e r [] s h = h"
| "latest_request e r (c # cs) s h =
     latest_request e r cs (snd (transact e c s))
       (if c = RequestAverageDecryption r
        then (case fst (transact e c s) of ReturnedHandle h' \<Rightarrow> h' | _ \<Rightarrow> h)
        else h)"

subsection \<open>What the contract relies on from the engine\<close>

text \<open>
  Modelled from the spec: the handles the engine returns (the library's source is not
  part of the repository). A handle the engine issues is initialized, that is, never
  \<open>bytes32(0)\<close>, the value of an uninitialized \<open>euint32\<close>; and an addition "produces
  a new Handle for the total".
\<close>

definition handles_initialized :: "env \<Rightarrow> bool" where
  "handles_initialized e =
     ((\<forall>sender ct pf. FHE_fromExternal e sender ct pf \<noteq> Some 0) \<and>
      (\<forall>a b. FHE_add e a b \<noteq> 0))"

definition add_produces_new_handle :: "env \<Rightarrow> bool" where
  "add_produces_new_handle e = (\<forall>a b. FHE_add e a b \<noteq> a)"

subsection \<open>A test double of the engine\<close>

text \<open>
  Plaintext arithmetic behind the engine's interface: a handle is the plaintext it
  stands for, except that the handle \<open>0\<close> is never issued and an addition never
  returns its first operand. An input proof is any non-empty byte string; a decryption
  proof is any non-empty byte string, and it verifies for one handle and the cleartext
  bytes that decode to that handle's plaintext.
\<close>

definition mock_add :: "bytes32 \<Rightarrow> bytes32 \<Rightarrow> bytes32" where
  "mock_add a b =
     (let h = a + b in if h \<noteq> a \<and> h \<noteq> 0 then h else if a \<noteq> 1 then 1 else 2)"

definition mock_checkSignatures :: "bytes32 list \<Rightarrow> bytes \<Rightarrow> bytes \<Rightarrow> bool" where
  "mock_checkSignatures hs ct pf =
     (case hs of [h] \<Rightarrow> pf \<noteq> [] \<and> abi_decode_uint32 ct = Some (ucast h) | _ \<Rightarrow> False)"

definition mock :: env where
  "mock =
     \<lparr>contract_address = 0xC0DE,
      FHE_fromExternal =
        (\<lambda>sender h pf. if pf = [] then None else Some (if h = 0 then 1 else h)),
      FHE_add = mock_add,
      FHE_div = (\<lambda>a n. a div ucast n),
      FHE_checkSignatures = mock_checkSignatures\<rparr>"

text \<open>The ABI encoding of a value below \<open>2 ^ 16\<close>, from its two low bytes.\<close>

definition cleartext :: "8 word \<Rightarrow> 8 word \<Rightarrow> bytes" where
  "cleartext hi lo =
     [0, 0, 0, 0, 0, 0, 0, 0, 0, 0, 0, 0, 0, 0, 0, 0,
      0, 0, 0, 0, 0, 0, 0, 0, 0, 0, 0, 0, 0, 0, hi, lo]"

abbreviation alice :: address where "alice \<equiv> 0xA11CE"
abbreviation bob :: address where "bob \<equiv> 0xB0B"
abbreviation charlie :: address where "charlie \<equiv> 0xC4A"
abbreviation dave :: address where "dave \<equiv> 0xDA7E"

text \<open>
  The scenario of the test suite: Alice, Bob and Charlie submit 50000, 60000 and
  70000; Dave requests the average.
\<close>

definition three_salaries :: "call list" where
  "three_salaries =
     [AddSalary alice 50000 [1], AddSalary bob 60000 [1], AddSalary charlie 70000 [1]]"

definition pending_state :: state where
  "pending_state = reachable mock (three_salaries @ [RequestAverageDecryption dave])"

text \<open>
  Dave has verified the average 60000 (\<open>0xEA60\<close>) and requested it again: the engine
  returns the same handle, which is now both pending and consumed.
\<close>

definition consumed_state :: state where
  "consumed_state =
     reachable mock
       (three_salaries @
        [RequestAverageDecryption dave,
         VerifyDecryption dave (cleartext 0xEA 0x60) [1],
         RequestAverageDecryption dave])"

text \<open>
  Dave requests the average of one salary (handle 50000, \<open>0xC350\<close>), Bob submits, and
  Dave requests again (handle 55000): the first handle is stale.
\<close>

definition stale_state :: state where
  "stale_state =
     reachable mock
       [AddSalary alice 50000 [1], RequestAverageDecryption dave,
        AddSalary bob 60000 [1], RequestAverageDecryption dave]"

section \<open>Properties\<close>

subsection \<open>Auxiliary facts\<close>

lemma count_succ_ne0: "(c::uint32) \<noteq> 0xFFFFFFFF \<Longrightarrow> c + 1 \<noteq> 0"
proof
  assume a: "c \<noteq> 0xFFFFFFFF" and b: "c + 1 = 0"
  from b have "c = - 1" by (simp add: eq_neg_iff_add_eq_0)
  with a show False by simp
qed

lemma unat_count_Suc: "(c::uint32) \<noteq> 0xFFFFFFFF \<Longrightarrow> unat (c + 1) = Suc (unat c)"
  using unatSuc [of c] count_succ_ne0 [of c] by (simp add: add.commute)

text \<open>Each function's body with the intermediate storages composed.\<close>

lemma addSalary_cases:
  "addSalary e p h pf s =
     (if hasSubmitted s p then Inl (AlreadySubmitted, s)
      else case FHE_fromExternal e p h pf of
        None \<Rightarrow> Inl (InvalidInputProof, s)
      | Some salary \<Rightarrow>
          let t = (if count s = 0 then salary else FHE_add e (encryptedTotal s) salary) in
          if count s = 0xFFFFFFFF
          then Inl (Panic_0x11,
                 s\<lparr>encryptedTotal := t,
                   permissions :=
                     (permissions s)
                       (salary := (permissions s salary)(contract_address e := True))\<rparr>)
          else Inr ((),
                 s\<lparr>encryptedTotal := t, count := count s + 1,
                   hasSubmitted := (hasSubmitted s)(p := True),
                   permissions :=
                     (let P1 = (permissions s)
                                 (salary := (permissions s salary)(contract_address e := True));
                          P2 = P1(t := (P1 t)(contract_address e := True))
                      in P2(t := (P2 t)(p := True))),
                   events := events s @ [SalarySubmitted p (count s + 1)]\<rparr>))"
  by (simp add: addSalary_def FHE_allow_def FHE_allowThis_def emit_def Let_def
      split: option.splits)

lemma requestAverageDecryption_cases:
  "requestAverageDecryption e r s =
     (if count s = 0 then Inl (NoSalariesSubmitted, s)
      else let avg = FHE_div e (encryptedTotal s) (count s) in
        Inr (avg,
          s\<lparr>pendingDecryptionHandles := (pendingDecryptionHandles s)(r := avg),
            permissions :=
              (let P1 = (permissions s)(avg := (permissions s avg)(contract_address e := True))
               in P1(avg := (P1 avg)(r := True))),
            public_flag := (public_flag s)(avg := True),
            events := events s @ [AverageRequested r avg]\<rparr>))"
  by (simp add: requestAverageDecryption_def FHE_allow_def FHE_allowThis_def
      FHE_makePubliclyDecryptable_def emit_def Let_def)

lemma verifyDecryption_cases:
  "verifyDecryption e r ct pf s =
     (if pendingDecryptionHandles s r = 0 then Inl (NoPendingDecryption, s)
      else if usedHandles s (pendingDecryptionHandles s r) then Inl (HandleAlreadyUsed, s)
      else if \<not> FHE_checkSignatures e [pendingDecryptionHandles s r] ct pf
        then Inl (CheckSignaturesRevert, s)
      else case abi_decode_uint32 ct of
        None \<Rightarrow> Inl (AbiDecodeRevert, s)
      | Some average \<Rightarrow>
          Inr ((),
            s\<lparr>lastDecryptedAverage := (lastDecryptedAverage s)(r := average),
              pendingDecryptionHandles := (pendingDecryptionHandles s)(r := 0),
              usedHandles := (usedHandles s)(pendingDecryptionHandles s r := True),
              events := events s @ [AverageDecrypted r average]\<rparr>))"
  by (simp add: verifyDecryption_def emit_def Let_def split: option.splits)

lemmas body_cases = addSalary_cases requestAverageDecryption_cases verifyDecryption_cases

lemmas body_defs = addSalary_def requestAverageDecryption_def verifyDecryption_def
  FHE_allow_def FHE_allowThis_def FHE_makePubliclyDecryptable_def emit_def Let_def

lemmas mock_defs = mock_def mock_add_def mock_checkSignatures_def cleartext_def
  abi_decode_uint32_def be_value_def constructor_def reachable_def three_salaries_def

text \<open>A reverted transaction leaves the storage as it was.\<close>

lemma transact_reverted: "fst (transact e c s) = Reverted err \<Longrightarrow> snd (transact e c s) = s"
  by (cases c) (auto split: sum.splits prod.splits)

text \<open>Flags that are only ever set.\<close>

lemma usedHandles_transact: "usedHandles s h \<Longrightarrow> usedHandles (snd (transact e c s)) h"
  by (cases c)
     (auto simp: body_cases Let_def split: sum.splits prod.splits if_splits option.splits)

lemma usedHandles_run: "usedHandles s h \<Longrightarrow> usedHandles (run e cs s) h"
  by (induction cs arbitrary: s) (simp_all add: usedHandles_transact)

lemma hasSubmitted_transact: "hasSubmitted s p \<Longrightarrow> hasSubmitted (snd (transact e c s)) p"
  by (cases c)
     (auto simp: body_cases Let_def split: sum.splits prod.splits if_splits option.splits)

lemma hasSubmitted_run: "hasSubmitted s p \<Longrightarrow> hasSubmitted (run e cs s) p"
  by (induction cs arbitrary: s) (simp_all add: hasSubmitted_transact)

text \<open>The counter changes only in a successful \<open>addSalary\<close>, by one and without wrapping.\<close>

lemma count_transact:
  "count (snd (transact e c s)) = count s \<or>
   ((\<exists>p ct pf. c = AddSalary p ct pf) \<and> fst (transact e c s) = Returned \<and>
    count s \<noteq> 0xFFFFFFFF \<and> count (snd (transact e c s)) = count s + 1)"
  by (cases c)
     (auto simp: body_cases Let_def split: sum.splits prod.splits if_splits option.splits)

lemma count_transact_le: "unat (count s) \<le> unat (count (snd (transact e c s)))"
  using count_transact [of e c s] by (auto simp: unat_count_Suc)

lemma count_run_le: "unat (count s) \<le> unat (count (run e cs s))"
proof (induction cs arbitrary: s)
  case Nil
  show ?case by simp
next
  case (Cons c cs)
  have "unat (count s) \<le> unat (count (snd (transact e c s)))"
    by (rule count_transact_le)
  also have "\<dots> \<le> unat (count (run e cs (snd (transact e c s))))"
    by (rule Cons.IH)
  finally show ?case by simp
qed

text \<open>The test double satisfies what the contract relies on.\<close>

lemma mock_handles_initialized: "handles_initialized mock"
  by (simp add: handles_initialized_def mock_def mock_add_def Let_def)

lemma mock_add_new: "add_produces_new_handle mock"
  by (simp add: add_produces_new_handle_def mock_def mock_add_def Let_def)

subsection \<open>The scenarios, evaluated\<close>

lemma cleartext_50000: "abi_decode_uint32 (cleartext 0xC3 0x50) = Some 50000"
  by (simp add: abi_decode_uint32_def cleartext_def be_value_def)

lemma cleartext_55000: "abi_decode_uint32 (cleartext 0xD6 0xD8) = Some 55000"
  by (simp add: abi_decode_uint32_def cleartext_def be_value_def)

lemma cleartext_60000: "abi_decode_uint32 (cleartext 0xEA 0x60) = Some 60000"
  by (simp add: abi_decode_uint32_def cleartext_def be_value_def)

lemma one_salary_facts:
  "count (reachable mock [AddSalary alice 50000 [1]]) = 1 \<and>
   encryptedTotal (reachable mock [AddSalary alice 50000 [1]]) = 50000 \<and>
   events (reachable mock [AddSalary alice 50000 [1]]) = [SalarySubmitted alice 1] \<and>
   \<not> hasSubmitted (reachable mock [AddSalary alice 50000 [1]]) bob"
  by (simp add: mock_defs body_defs)

lemma three_salaries_facts:
  "count (reachable mock three_salaries) = 3 \<and>
   encryptedTotal (reachable mock three_salaries) = 180000"
  by (simp add: mock_defs body_defs)

lemma pending_state_facts:
  "pendingDecryptionHandles pending_state dave = 60000 \<and> \<not> usedHandles pending_state 60000 \<and>
   lastDecryptedAverage pending_state dave = 0"
  by (simp add: pending_state_def mock_defs body_defs)

lemma consumed_state_facts:
  "usedHandles consumed_state 60000 \<and> pendingDecryptionHandles consumed_state dave = 60000"
  by (simp add: consumed_state_def mock_defs body_defs)

lemma stale_state_facts:
  "pendingDecryptionHandles stale_state dave = 55000 \<and> \<not> usedHandles stale_state 55000 \<and>
   count stale_state = 2 \<and> encryptedTotal stale_state = 110000"
  by (simp add: stale_state_def mock_defs body_defs)

subsection \<open>Replay protection\<close>

lemma usedHandles_zero_transact:
  "\<not> usedHandles s 0 \<Longrightarrow> \<not> usedHandles (snd (transact e c s)) 0"
  by (cases c)
     (auto simp: body_cases Let_def split: sum.splits prod.splits if_splits option.splits)

lemma usedHandles_zero_run: "\<not> usedHandles s 0 \<Longrightarrow> \<not> usedHandles (run e cs s) 0"
  by (induction cs arbitrary: s) (simp_all add: usedHandles_zero_transact)

lemma usedHandles_zero_reachable: "\<not> usedHandles (reachable e cs) 0"
  unfolding reachable_def by (rule usedHandles_zero_run) (simp add: constructor_def)

text \<open>
  Claim C1. If a handle \<open>h\<close> is in the replay guard (\<open>usedHandles s h\<close>) and is a
  requester's pending handle, then \<open>verifyDecryption\<close> by that requester reverts with
  \<open>HandleAlreadyUsed\<close> before anything is written, whatever cleartext bytes and proof
  are supplied. This holds in every storage reached from deployment, and in any
  storage at all when \<open>h\<close> is not \<open>bytes32(0)\<close>, the value that stands for "no pending
  handle" (which is never in the replay guard of a reached storage). No transaction
  removes a handle from the replay guard, so after any further sequence of
  transactions a verification against \<open>h\<close> still reverts with \<open>HandleAlreadyUsed\<close>.
\<close>

theorem replay_guard_rejects_consumed_handle:
  "(usedHandles (reachable e cs) h \<and> pendingDecryptionHandles (reachable e cs) r = h \<longrightarrow>
      verifyDecryption e r ct pf (reachable e cs) = Inl (HandleAlreadyUsed, reachable e cs)) \<and>
   (usedHandles s h \<and> h \<noteq> 0 \<and> pendingDecryptionHandles s r = h \<longrightarrow>
      verifyDecryption e r ct pf s = Inl (HandleAlreadyUsed, s)) \<and>
   (usedHandles s h \<longrightarrow> usedHandles (snd (transact e c s)) h \<and> usedHandles (run e cs s) h) \<and>
   (usedHandles s h \<and> h \<noteq> 0 \<and> pendingDecryptionHandles (run e cs s) r = h \<longrightarrow>
      transact e (VerifyDecryption r ct pf) (run e cs s) =
        (Reverted HandleAlreadyUsed, run e cs s))"
proof (intro conjI impI)
  assume a: "usedHandles (reachable e cs) h \<and> pendingDecryptionHandles (reachable e cs) r = h"
  with usedHandles_zero_reachable [of e cs] have "h \<noteq> 0" by auto
  with a show "verifyDecryption e r ct pf (reachable e cs) =
      Inl (HandleAlreadyUsed, reachable e cs)"
    by (simp add: verifyDecryption_cases)
next
  assume "usedHandles s h \<and> h \<noteq> 0 \<and> pendingDecryptionHandles s r = h"
  then show "verifyDecryption e r ct pf s = Inl (HandleAlreadyUsed, s)"
    by (simp add: verifyDecryption_cases)
next
  assume u: "usedHandles s h"
  then show "usedHandles (snd (transact e c s)) h" by (rule usedHandles_transact)
  from u show "usedHandles (run e cs s) h" by (rule usedHandles_run)
next
  assume a: "usedHandles s h \<and> h \<noteq> 0 \<and> pendingDecryptionHandles (run e cs s) r = h"
  then have "usedHandles (run e cs s) h" by (simp add: usedHandles_run)
  with a show "transact e (VerifyDecryption r ct pf) (run e cs s) =
      (Reverted HandleAlreadyUsed, run e cs s)"
    by (simp add: verifyDecryption_cases)
qed

text \<open>
  In the scenario the handle 60000 is consumed and pending again, and the proof
  supplied is one that verifies for it; the handle stays consumed when Dave requests
  once more, and the verification reverts again.
\<close>

theorem replay_guard_rejects_consumed_handle_witness:
  "usedHandles consumed_state 60000 \<and> (60000 :: bytes32) \<noteq> 0 \<and>
   pendingDecryptionHandles consumed_state dave = 60000 \<and>
   FHE_checkSignatures mock [60000] (cleartext 0xEA 0x60) [1] \<and>
   verifyDecryption mock dave (cleartext 0xEA 0x60) [1] consumed_state =
     Inl (HandleAlreadyUsed, consumed_state) \<and>
   usedHandles (run mock [RequestAverageDecryption dave] consumed_state) 60000 \<and>
   pendingDecryptionHandles (run mock [RequestAverageDecryption dave] consumed_state) dave =
     60000 \<and>
   fst (transact mock (VerifyDecryption dave (cleartext 0xEA 0x60) [1])
     (run mock [RequestAverageDecryption dave] consumed_state)) = Reverted HandleAlreadyUsed"
proof -
  let ?cs = "three_salaries @
        [RequestAverageDecryption dave,
         VerifyDecryption dave (cleartext 0xEA 0x60) [1],
         RequestAverageDecryption dave]"
  let ?again = "[RequestAverageDecryption dave]"
  have r: "consumed_state = reachable mock ?cs" by (rule consumed_state_def)
  have u: "usedHandles consumed_state 60000" and nz: "(60000 :: bytes32) \<noteq> 0"
    and p: "pendingDecryptionHandles consumed_state dave = 60000"
    using consumed_state_facts by simp_all
  have c: "FHE_checkSignatures mock [60000] (cleartext 0xEA 0x60) [1]"
    by (simp add: mock_defs)
  have p': "pendingDecryptionHandles (run mock ?again consumed_state) dave = 60000"
    by (simp add: consumed_state_def mock_defs body_defs)
  note t = replay_guard_rejects_consumed_handle
    [where e = mock and r = dave and h = 60000 and ct = "cleartext 0xEA 0x60" and pf = "[1]"]
  from t [where cs = ?cs] u p
  have v: "verifyDecryption mock dave (cleartext 0xEA 0x60) [1] consumed_state =
     Inl (HandleAlreadyUsed, consumed_state)"
    unfolding r by blast
  from t [where s = consumed_state and cs = ?again] u
  have u': "usedHandles (run mock ?again consumed_state) 60000" by blast
  from t [where s = consumed_state and cs = ?again] u nz p'
  have "transact mock (VerifyDecryption dave (cleartext 0xEA 0x60) [1])
     (run mock ?again consumed_state) =
     (Reverted HandleAlreadyUsed, run mock ?again consumed_state)" by blast
  then have f: "fst (transact mock (VerifyDecryption dave (cleartext 0xEA 0x60) [1])
     (run mock ?again consumed_state)) = Reverted HandleAlreadyUsed"
    by (simp only: fst_conv)
  from u nz p c v u' p' f show ?thesis by blast
qed

subsection \<open>Verification of a decryption\<close>

text \<open>
  Claim C2. Let \<open>h\<close> be the requester's pending handle, not in the replay guard, and
  let the proof verify for \<open>[h]\<close> and the cleartext bytes. Then \<open>verifyDecryption\<close>
  returns exactly when the cleartext bytes decode, and the storage after it is the
  storage before with these changes and no other: \<open>lastDecryptedAverage\<close> of the
  requester is the decoded average, \<open>h\<close> is in the replay guard, the requester's
  pending handle is cleared (the requester is back in state NONE), and
  \<open>AverageDecrypted (requester, average)\<close> is appended to the event log. A
  \<open>verifyDecryption\<close> that reverts leaves the requester with the same pending handle
  (and the whole storage as it was), so the requester can retry.
\<close>

theorem verifyDecryption_success_effects:
  "(pendingDecryptionHandles s r = h \<and> h \<noteq> 0 \<and> \<not> usedHandles s h \<and>
      FHE_checkSignatures e [h] ct pf \<longrightarrow>
      (\<forall>s'. verifyDecryption e r ct pf s = Inr ((), s') \<longleftrightarrow>
         (\<exists>average. abi_decode_uint32 ct = Some average \<and>
            s' = s\<lparr>lastDecryptedAverage := (lastDecryptedAverage s)(r := average),
                   pendingDecryptionHandles := (pendingDecryptionHandles s)(r := 0),
                   usedHandles := (usedHandles s)(h := True),
                   events := events s @ [AverageDecrypted r average]\<rparr>)) \<and>
      (\<forall>s'. verifyDecryption e r ct pf s = Inr ((), s') \<longrightarrow> getPendingHandle s' r = 0)) \<and>
   (pendingDecryptionHandles s r = h \<and> h \<noteq> 0 \<and>
      fst (transact e (VerifyDecryption r ct pf) s) = Reverted err \<longrightarrow>
      snd (transact e (VerifyDecryption r ct pf) s) = s \<and>
      getPendingHandle (snd (transact e (VerifyDecryption r ct pf) s)) r = h)"
proof (intro conjI impI)
  assume a: "pendingDecryptionHandles s r = h \<and> h \<noteq> 0 \<and> \<not> usedHandles s h \<and>
      FHE_checkSignatures e [h] ct pf"
  then have v: "verifyDecryption e r ct pf s =
      (case abi_decode_uint32 ct of
         None \<Rightarrow> Inl (AbiDecodeRevert, s)
       | Some average \<Rightarrow>
          Inr ((),
            s\<lparr>lastDecryptedAverage := (lastDecryptedAverage s)(r := average),
              pendingDecryptionHandles := (pendingDecryptionHandles s)(r := 0),
              usedHandles := (usedHandles s)(h := True),
              events := events s @ [AverageDecrypted r average]\<rparr>))"
    by (simp add: verifyDecryption_cases split: option.splits)
  show "\<forall>s'. verifyDecryption e r ct pf s = Inr ((), s') \<longleftrightarrow>
         (\<exists>average. abi_decode_uint32 ct = Some average \<and>
            s' = s\<lparr>lastDecryptedAverage := (lastDecryptedAverage s)(r := average),
                   pendingDecryptionHandles := (pendingDecryptionHandles s)(r := 0),
                   usedHandles := (usedHandles s)(h := True),
                   events := events s @ [AverageDecrypted r average]\<rparr>)"
    unfolding v by (cases "abi_decode_uint32 ct") auto
  show "\<forall>s'. verifyDecryption e r ct pf s = Inr ((), s') \<longrightarrow> getPendingHandle s' r = 0"
    unfolding v by (cases "abi_decode_uint32 ct") (auto simp: getPendingHandle_def)
next
  assume b: "pendingDecryptionHandles s r = h \<and> h \<noteq> 0 \<and>
      fst (transact e (VerifyDecryption r ct pf) s) = Reverted err"
  then have "fst (transact e (VerifyDecryption r ct pf) s) = Reverted err" by blast
  then have eq: "snd (transact e (VerifyDecryption r ct pf) s) = s"
    by (rule transact_reverted)
  from b have "getPendingHandle s r = h" by (simp add: getPendingHandle_def)
  then show "getPendingHandle (snd (transact e (VerifyDecryption r ct pf) s)) r = h"
    unfolding eq by simp
  show "snd (transact e (VerifyDecryption r ct pf) s) = s" by (rule eq)
qed

text \<open>
  The scenario of the specification: the average of 50000, 60000 and 70000 is
  recorded as 60000 by a verification that succeeds, and was 0 before; a verification
  with the cleartext 50000 reverts and leaves Dave's request pending.
\<close>

theorem verifyDecryption_success_effects_witness:
  "pendingDecryptionHandles pending_state dave = 60000 \<and> (60000 :: bytes32) \<noteq> 0 \<and>
   \<not> usedHandles pending_state 60000 \<and>
   FHE_checkSignatures mock [60000] (cleartext 0xEA 0x60) [1] \<and>
   getLastAverage pending_state dave = 0 \<and>
   (\<exists>s'. verifyDecryption mock dave (cleartext 0xEA 0x60) [1] pending_state = Inr ((), s') \<and>
      getLastAverage s' dave = 60000 \<and> usedHandles s' 60000 \<and> getPendingHandle s' dave = 0 \<and>
      events s' = events pending_state @ [AverageDecrypted dave 60000]) \<and>
   fst (transact mock (VerifyDecryption dave (cleartext 0xC3 0x50) [1]) pending_state) =
     Reverted CheckSignaturesRevert \<and>
   getPendingHandle
     (snd (transact mock (VerifyDecryption dave (cleartext 0xC3 0x50) [1]) pending_state)) dave =
     60000"
proof -
  have p: "pendingDecryptionHandles pending_state dave = 60000"
    and u: "\<not> usedHandles pending_state 60000"
    and l: "getLastAverage pending_state dave = 0"
    using pending_state_facts by (simp_all add: getLastAverage_def)
  have nz: "(60000 :: bytes32) \<noteq> 0" by simp
  have c: "FHE_checkSignatures mock [60000] (cleartext 0xEA 0x60) [1]"
    by (simp add: mock_def mock_checkSignatures_def cleartext_60000)
  have nc: "\<not> FHE_checkSignatures mock [60000] (cleartext 0xC3 0x50) [1]"
    by (simp add: mock_def mock_checkSignatures_def cleartext_50000)
  have r: "fst (transact mock (VerifyDecryption dave (cleartext 0xC3 0x50) [1]) pending_state) =
     Reverted CheckSignaturesRevert"
    using p u nc by (simp add: verifyDecryption_cases)
  note t = verifyDecryption_success_effects
    [of pending_state dave 60000 mock "cleartext 0xEA 0x60" "[1]" CheckSignaturesRevert]
  note t' = verifyDecryption_success_effects
    [of pending_state dave 60000 mock "cleartext 0xC3 0x50" "[1]" CheckSignaturesRevert]
  let ?s' = "pending_state\<lparr>lastDecryptedAverage := (lastDecryptedAverage pending_state)(dave := 60000),
                   pendingDecryptionHandles := (pendingDecryptionHandles pending_state)(dave := 0),
                   usedHandles := (usedHandles pending_state)(60000 := True),
                   events := events pending_state @ [AverageDecrypted dave 60000]\<rparr>"
  from t p nz u c cleartext_60000
  have "verifyDecryption mock dave (cleartext 0xEA 0x60) [1] pending_state = Inr ((), ?s')"
    by blast
  then have ex: "\<exists>s'. verifyDecryption mock dave (cleartext 0xEA 0x60) [1] pending_state = Inr ((), s') \<and>
      getLastAverage s' dave = 60000 \<and> usedHandles s' 60000 \<and> getPendingHandle s' dave = 0 \<and>
      events s' = events pending_state @ [AverageDecrypted dave 60000]"
    by (simp add: getLastAverage_def getPendingHandle_def)
  from t' p nz r
  have "getPendingHandle
     (snd (transact mock (VerifyDecryption dave (cleartext 0xC3 0x50) [1]) pending_state)) dave =
     60000" by blast
  with p nz u c l ex r show ?thesis by blast
qed

text \<open>
  Claim C3. \<open>verifyDecryption\<close> checks in this order: no pending handle (the stored
  handle is \<open>bytes32(0)\<close>) reverts with \<open>NoPendingDecryption\<close>; otherwise a pending
  handle in the replay guard reverts with \<open>HandleAlreadyUsed\<close>; otherwise a proof
  that does not verify for the pending handle and the cleartext bytes reverts. The
  error is that of the first check that fails, and when one of the first two fails the
  proof is not checked: the outcome is the same for every proof verifier. The third
  revert, however, is not \<open>InvalidDecryptionProof\<close>, as the claim and the docstring of
  that error say: it is the library's revert inside \<^verbatim>\<open>FHE.checkSignatures\<close>, and no
  call of \<open>verifyDecryption\<close> ever reverts with \<open>InvalidDecryptionProof\<close>.
\<close>

theorem verifyDecryption_check_order:
  "(pendingDecryptionHandles s r = 0 \<longrightarrow>
      verifyDecryption e r ct pf s = Inl (NoPendingDecryption, s)) \<and>
   (pendingDecryptionHandles s r \<noteq> 0 \<and> usedHandles s (pendingDecryptionHandles s r) \<longrightarrow>
      verifyDecryption e r ct pf s = Inl (HandleAlreadyUsed, s)) \<and>
   (pendingDecryptionHandles s r \<noteq> 0 \<and> \<not> usedHandles s (pendingDecryptionHandles s r) \<and>
    \<not> FHE_checkSignatures e [pendingDecryptionHandles s r] ct pf \<longrightarrow>
      verifyDecryption e r ct pf s = Inl (CheckSignaturesRevert, s)) \<and>
   (pendingDecryptionHandles s r = 0 \<or> usedHandles s (pendingDecryptionHandles s r) \<longrightarrow>
      verifyDecryption (e\<lparr>FHE_checkSignatures := verifier\<rparr>) r ct pf s =
        verifyDecryption e r ct pf s) \<and>
   (\<forall>sp. verifyDecryption e r ct pf s \<noteq> Inl (InvalidDecryptionProof, sp)) \<and>
   fst (transact e (VerifyDecryption r ct pf) s) \<noteq> Reverted InvalidDecryptionProof"
  by (simp add: verifyDecryption_cases split: option.splits)

text \<open>
  Before any request Dave has no pending handle, and an invalid proof is reported as
  \<open>NoPendingDecryption\<close>; with the consumed handle pending again, the same invalid
  proof is reported as \<open>HandleAlreadyUsed\<close>; with a fresh handle pending, the call
  with the cleartext 50000, which does not verify for the handle 60000, reverts
  inside the proof check and not with \<open>InvalidDecryptionProof\<close>.
\<close>

theorem verifyDecryption_check_order_witness:
  "pendingDecryptionHandles constructor dave = 0 \<and>
   verifyDecryption mock dave [] [] constructor = Inl (NoPendingDecryption, constructor) \<and>
   pendingDecryptionHandles consumed_state dave \<noteq> 0 \<and>
   usedHandles consumed_state (pendingDecryptionHandles consumed_state dave) \<and>
   verifyDecryption mock dave [] [] consumed_state = Inl (HandleAlreadyUsed, consumed_state) \<and>
   verifyDecryption (mock\<lparr>FHE_checkSignatures := (\<lambda>_ _ _. True)\<rparr>) dave [] [] consumed_state =
     verifyDecryption mock dave [] [] consumed_state \<and>
   pendingDecryptionHandles pending_state dave \<noteq> 0 \<and>
   \<not> usedHandles pending_state (pendingDecryptionHandles pending_state dave) \<and>
   \<not> FHE_checkSignatures mock [pendingDecryptionHandles pending_state dave]
       (cleartext 0xC3 0x50) [1] \<and>
   verifyDecryption mock dave (cleartext 0xC3 0x50) [1] pending_state =
     Inl (CheckSignaturesRevert, pending_state) \<and>
   Inl (CheckSignaturesRevert, pending_state) \<noteq>
     (Inl (InvalidDecryptionProof, pending_state) :: unit result)"
proof -
  have a: "pendingDecryptionHandles constructor dave = 0"
    by (simp add: constructor_def)
  have b: "pendingDecryptionHandles consumed_state dave \<noteq> 0 \<and>
      usedHandles consumed_state (pendingDecryptionHandles consumed_state dave)"
    using consumed_state_facts by simp
  have c: "pendingDecryptionHandles pending_state dave \<noteq> 0 \<and>
      \<not> usedHandles pending_state (pendingDecryptionHandles pending_state dave) \<and>
      \<not> FHE_checkSignatures mock [pendingDecryptionHandles pending_state dave]
         (cleartext 0xC3 0x50) [1]"
    using pending_state_facts
    by (simp add: mock_def mock_checkSignatures_def cleartext_50000)
  have d: "Inl (CheckSignaturesRevert, pending_state) \<noteq>
     (Inl (InvalidDecryptionProof, pending_state) :: unit result)"
    by simp
  from a b c d
    verifyDecryption_check_order [of constructor dave mock "[]" "[]" "\<lambda>_ _ _. True"]
    verifyDecryption_check_order [of consumed_state dave mock "[]" "[]" "\<lambda>_ _ _. True"]
    verifyDecryption_check_order
      [of pending_state dave mock "cleartext 0xC3 0x50" "[1]" "\<lambda>_ _ _. True"]
  show ?thesis by blast
qed

subsection \<open>Submission\<close>

text \<open>
  Claim C4. After every \<open>addSalary\<close> by \<open>p\<close> that returns: the engine accepted the
  external ciphertext and returned a handle; if \<open>count\<close> was 0 the new
  \<open>encryptedTotal\<close> is that handle, otherwise it is \<open>FHE.add\<close> of the old total and
  that handle (a handle other than the old total, as the engine's additions produce new
  handles); \<open>count\<close> is the old count plus 1, without wrap-around; \<open>p\<close> is in the
  submission record; and \<open>SalarySubmitted (p, count)\<close>, with the updated count, is
  appended to the event log.
\<close>

theorem addSalary_success_effects:
  assumes "addSalary e p ct pf s = Inr ((), s')"
  shows "\<exists>newHandle. FHE_fromExternal e p ct pf = Some newHandle \<and>
     (count s = 0 \<longrightarrow> encryptedTotal s' = newHandle) \<and>
     (count s \<noteq> 0 \<longrightarrow> encryptedTotal s' = FHE_add e (encryptedTotal s) newHandle \<and>
        (add_produces_new_handle e \<longrightarrow> encryptedTotal s' \<noteq> encryptedTotal s)) \<and>
     unat (getCount s') = unat (getCount s) + 1 \<and>
     hasUserSubmitted s' p \<and>
     events s' = events s @ [SalarySubmitted p (getCount s')]"
proof -
  from assms obtain newHandle where f: "FHE_fromExternal e p ct pf = Some newHandle"
    by (auto simp: addSalary_cases split: if_splits option.splits)
  from assms f have m: "count s \<noteq> 0xFFFFFFFF"
    by (auto simp: addSalary_cases Let_def split: if_splits)
  from assms f m have s': "s' =
      s\<lparr>encryptedTotal :=
            (if count s = 0 then newHandle else FHE_add e (encryptedTotal s) newHandle),
        count := count s + 1,
        hasSubmitted := (hasSubmitted s)(p := True),
        permissions := permissions s',
        events := events s @ [SalarySubmitted p (count s + 1)]\<rparr>"
    by (auto simp: addSalary_cases Let_def split: if_splits)
  have t0: "count s = 0 \<longrightarrow> encryptedTotal s' = newHandle"
    by (subst s') simp
  have t1: "count s \<noteq> 0 \<longrightarrow> encryptedTotal s' = FHE_add e (encryptedTotal s) newHandle"
    by (subst s') simp
  have t2: "count s \<noteq> 0 \<longrightarrow> add_produces_new_handle e \<longrightarrow>
      encryptedTotal s' \<noteq> encryptedTotal s"
    using t1 by (simp add: add_produces_new_handle_def)
  have c: "count s' = count s + 1" by (subst s') simp
  have n: "unat (getCount s') = unat (getCount s) + 1"
    using m by (simp add: getCount_def c unat_count_Suc)
  have h: "hasUserSubmitted s' p" by (subst s') (simp add: hasUserSubmitted_def)
  have ev: "events s' = events s @ [SalarySubmitted p (getCount s')]"
    unfolding getCount_def c by (subst s') simp
  from f t0 t1 t2 n h ev show ?thesis by blast
qed

text \<open>
  Alice's submission is the first, Bob's the second: the totals are the handle of
  50000 and then the sum handle 110000.
\<close>

theorem addSalary_success_effects_witness:
  "(\<exists>s'. addSalary mock alice 50000 [1] constructor = Inr ((), s') \<and>
      count constructor = 0 \<and> encryptedTotal s' = 50000 \<and> unat (getCount s') = 1) \<and>
   (\<exists>s'. addSalary mock bob 60000 [1] (reachable mock [AddSalary alice 50000 [1]]) = Inr ((), s') \<and>
      count (reachable mock [AddSalary alice 50000 [1]]) \<noteq> 0 \<and>
      add_produces_new_handle mock \<and>
      encryptedTotal s' = 110000 \<and>
      encryptedTotal s' \<noteq> encryptedTotal (reachable mock [AddSalary alice 50000 [1]]) \<and>
      unat (getCount s') = 2 \<and> hasUserSubmitted s' bob \<and>
      events s' = [SalarySubmitted alice 1, SalarySubmitted bob (getCount s')])"
proof -
  let ?s1 = "reachable mock [AddSalary alice 50000 [1]]"
  obtain sa where a: "addSalary mock alice 50000 [1] constructor = Inr ((), sa)"
    by (simp add: addSalary_cases mock_defs)
  obtain sb where b: "addSalary mock bob 60000 [1] ?s1 = Inr ((), sb)"
    using one_salary_facts by (simp add: addSalary_cases Let_def mock_def)
  have fa: "FHE_fromExternal mock alice 50000 [1] = Some 50000"
    and fb: "FHE_fromExternal mock bob 60000 [1] = Some 60000"
    and ad: "FHE_add mock 50000 60000 = 110000"
    by (simp_all add: mock_def mock_add_def)
  have c0: "count constructor = 0" and e0: "getCount constructor = 0"
    by (simp_all add: constructor_def getCount_def)
  from addSalary_success_effects [OF a] fa c0 e0
  have A: "encryptedTotal sa = 50000 \<and> unat (getCount sa) = 1" by auto
  have c1: "count ?s1 \<noteq> 0" "encryptedTotal ?s1 = 50000" "getCount ?s1 = 1"
    "events ?s1 = [SalarySubmitted alice 1]"
    using one_salary_facts by (simp_all add: getCount_def)
  from addSalary_success_effects [OF b] fb ad c1 mock_add_new
  have B: "encryptedTotal sb = 110000 \<and> encryptedTotal sb \<noteq> encryptedTotal ?s1 \<and>
      unat (getCount sb) = 2 \<and> hasUserSubmitted sb bob \<and>
      events sb = [SalarySubmitted alice 1, SalarySubmitted bob (getCount sb)]"
    by auto
  have "\<exists>s'. addSalary mock alice 50000 [1] constructor = Inr ((), s') \<and>
      count constructor = 0 \<and> encryptedTotal s' = 50000 \<and> unat (getCount s') = 1"
    using a A c0 by (intro exI [of _ sa]) simp
  moreover have "\<exists>s'. addSalary mock bob 60000 [1] ?s1 = Inr ((), s') \<and>
      count ?s1 \<noteq> 0 \<and> add_produces_new_handle mock \<and>
      encryptedTotal s' = 110000 \<and> encryptedTotal s' \<noteq> encryptedTotal ?s1 \<and>
      unat (getCount s') = 2 \<and> hasUserSubmitted s' bob \<and>
      events s' = [SalarySubmitted alice 1, SalarySubmitted bob (getCount s')]"
    using b B c1 mock_add_new by (intro exI [of _ sb]) simp
  ultimately show ?thesis by (rule conjI)
qed

text \<open>
  Claim C5. When \<open>p\<close> is already in the submission record, \<open>addSalary\<close> by \<open>p\<close>
  reverts with \<open>AlreadySubmitted\<close> with nothing written yet, and after the failed
  transaction \<open>getCount\<close>, \<open>hasSubmitted\<close> and \<open>encryptedTotal\<close> are as before. The
  flag is never cleared; so once a submission by \<open>p\<close> has returned, every later
  submission by \<open>p\<close>, after any sequence of transactions, reverts with
  \<open>AlreadySubmitted\<close>.
\<close>

theorem addSalary_rejects_second_submission:
  "(hasSubmitted s p \<longrightarrow>
      addSalary e p ct pf s = Inl (AlreadySubmitted, s) \<and>
      fst (transact e (AddSalary p ct pf) s) = Reverted AlreadySubmitted \<and>
      getCount (snd (transact e (AddSalary p ct pf) s)) = getCount s \<and>
      hasSubmitted (snd (transact e (AddSalary p ct pf) s)) = hasSubmitted s \<and>
      encryptedTotal (snd (transact e (AddSalary p ct pf) s)) = encryptedTotal s) \<and>
   (addSalary e p ct pf s = Inr ((), s1) \<longrightarrow>
      (\<forall>cs ct' pf'.
         transact e (AddSalary p ct' pf') (run e cs s1) =
           (Reverted AlreadySubmitted, run e cs s1)))"
proof (intro conjI impI allI)
  assume "addSalary e p ct pf s = Inr ((), s1)"
  then have h: "hasSubmitted s1 p"
    by (auto simp: addSalary_cases Let_def split: if_splits option.splits)
  fix cs ct' pf'
  from h have "hasSubmitted (run e cs s1) p" by (rule hasSubmitted_run)
  then show "transact e (AddSalary p ct' pf') (run e cs s1) =
      (Reverted AlreadySubmitted, run e cs s1)"
    by (simp add: addSalary_cases)
qed (simp_all add: addSalary_cases getCount_def)

text \<open>
  Alice submits; her second submission, after Bob's, reverts and the count stays 2.
\<close>

theorem addSalary_rejects_second_submission_witness:
  "hasSubmitted (reachable mock [AddSalary alice 50000 [1]]) alice \<and>
   addSalary mock alice 50000 [1] (reachable mock [AddSalary alice 50000 [1]]) =
     Inl (AlreadySubmitted, reachable mock [AddSalary alice 50000 [1]]) \<and>
   getCount (snd (transact mock (AddSalary alice 50000 [1])
      (reachable mock [AddSalary alice 50000 [1]]))) =
     getCount (reachable mock [AddSalary alice 50000 [1]]) \<and>
   (\<exists>s1. addSalary mock alice 50000 [1] constructor = Inr ((), s1) \<and>
      fst (transact mock (AddSalary alice 70000 [1]) (run mock [AddSalary bob 60000 [1]] s1)) =
        Reverted AlreadySubmitted)"
proof -
  let ?s1 = "reachable mock [AddSalary alice 50000 [1]]"
  have h: "hasSubmitted ?s1 alice"
    by (simp add: mock_defs body_defs)
  obtain s1 where a: "addSalary mock alice 50000 [1] constructor = Inr ((), s1)"
    by (simp add: addSalary_cases mock_defs)
  from addSalary_rejects_second_submission [of constructor alice mock 50000 "[1]" s1] a
  have "transact mock (AddSalary alice 70000 [1]) (run mock [AddSalary bob 60000 [1]] s1) =
      (Reverted AlreadySubmitted, run mock [AddSalary bob 60000 [1]] s1)"
    by blast
  then have "fst (transact mock (AddSalary alice 70000 [1])
      (run mock [AddSalary bob 60000 [1]] s1)) = Reverted AlreadySubmitted"
    by (simp only: fst_conv)
  with a have "\<exists>s1. addSalary mock alice 50000 [1] constructor = Inr ((), s1) \<and>
      fst (transact mock (AddSalary alice 70000 [1]) (run mock [AddSalary bob 60000 [1]] s1)) =
        Reverted AlreadySubmitted"
    by blast
  with h addSalary_rejects_second_submission [of ?s1 alice mock 50000 "[1]" s1]
  show ?thesis by blast
qed

subsection \<open>Requesting the average\<close>

text \<open>
  Claim C6. \<open>requestAverageDecryption\<close> reverts exactly when \<open>count\<close> is 0, and then
  with \<open>NoSalariesSubmitted\<close>; its outcome does not depend on what the engine's
  division returns for the divisor 0, that is, the division is never called with a
  zero divisor. When \<open>count\<close> is not 0 it computes
  \<open>avg = FHE.div (encryptedTotal, count)\<close>, grants the contract and the requester
  permission on \<open>avg\<close>, marks \<open>avg\<close> publicly decryptable, stores \<open>avg\<close> as the
  requester's pending handle, appends \<open>AverageRequested (requester, avg)\<close> to the
  event log, changes nothing else, and returns \<open>avg\<close>: the handle returned is the
  requester's stored pending handle.
\<close>

theorem requestAverageDecryption_effects:
  "((\<exists>err sp. requestAverageDecryption e r s = Inl (err, sp)) \<longleftrightarrow> count s = 0) \<and>
   (requestAverageDecryption e r s = Inl (NoSalariesSubmitted, s) \<longleftrightarrow> count s = 0) \<and>
   (count s \<noteq> 0 \<longrightarrow>
      (\<exists>s'. requestAverageDecryption e r s = Inr (FHE_div e (encryptedTotal s) (count s), s') \<and>
         permissions s' (FHE_div e (encryptedTotal s) (count s)) (contract_address e) \<and>
         permissions s' (FHE_div e (encryptedTotal s) (count s)) r \<and>
         public_flag s' (FHE_div e (encryptedTotal s) (count s)) \<and>
         pendingDecryptionHandles s' r = FHE_div e (encryptedTotal s) (count s) \<and>
         events s' = events s @ [AverageRequested r (FHE_div e (encryptedTotal s) (count s))] \<and>
         s'\<lparr>pendingDecryptionHandles := pendingDecryptionHandles s,
             permissions := permissions s, public_flag := public_flag s,
             events := events s\<rparr> = s)) \<and>
   (\<forall>handle s'. requestAverageDecryption e r s = Inr (handle, s') \<longrightarrow>
      getPendingHandle s' r = handle) \<and>
   (\<forall>at_zero. requestAverageDecryption
        (e\<lparr>FHE_div := (\<lambda>t n. if n = 0 then at_zero t else FHE_div e t n)\<rparr>) r s =
      requestAverageDecryption e r s)"
  by (auto simp: requestAverageDecryption_cases Let_def getPendingHandle_def)

text \<open>
  Before any submission Dave's request reverts; after the three submissions it
  returns the handle of \<open>180000 div 3\<close>.
\<close>

theorem requestAverageDecryption_effects_witness:
  "count constructor = 0 \<and>
   requestAverageDecryption mock dave constructor = Inl (NoSalariesSubmitted, constructor) \<and>
   count (reachable mock three_salaries) \<noteq> 0 \<and>
   (\<exists>s'. requestAverageDecryption mock dave (reachable mock three_salaries) = Inr (60000, s') \<and>
      permissions s' 60000 (contract_address mock) \<and> permissions s' 60000 dave \<and>
      public_flag s' 60000 \<and> getPendingHandle s' dave = 60000 \<and>
      events s' = events (reachable mock three_salaries) @ [AverageRequested dave 60000])"
proof -
  let ?s = "reachable mock three_salaries"
  have c0: "count constructor = 0" by (simp add: constructor_def)
  have c3: "count ?s \<noteq> 0" and d: "FHE_div mock (encryptedTotal ?s) (count ?s) = 60000"
    by (simp_all add: mock_defs body_defs)
  from requestAverageDecryption_effects [of mock dave constructor] c0
  have r0: "requestAverageDecryption mock dave constructor =
      Inl (NoSalariesSubmitted, constructor)" by blast
  from requestAverageDecryption_effects [of mock dave ?s] c3
  obtain s' where s': "requestAverageDecryption mock dave ?s =
          Inr (FHE_div mock (encryptedTotal ?s) (count ?s), s') \<and>
         permissions s' (FHE_div mock (encryptedTotal ?s) (count ?s)) (contract_address mock) \<and>
         permissions s' (FHE_div mock (encryptedTotal ?s) (count ?s)) dave \<and>
         public_flag s' (FHE_div mock (encryptedTotal ?s) (count ?s)) \<and>
         pendingDecryptionHandles s' dave = FHE_div mock (encryptedTotal ?s) (count ?s) \<and>
         events s' = events ?s @
           [AverageRequested dave (FHE_div mock (encryptedTotal ?s) (count ?s))]"
    by blast
  have "\<exists>s'. requestAverageDecryption mock dave ?s = Inr (60000, s') \<and>
      permissions s' 60000 (contract_address mock) \<and> permissions s' 60000 dave \<and>
      public_flag s' 60000 \<and> getPendingHandle s' dave = 60000 \<and>
      events s' = events ?s @ [AverageRequested dave 60000]"
    using s' unfolding d getPendingHandle_def by (intro exI [of _ s'])
  with c0 r0 c3 show ?thesis by blast
qed

subsection \<open>Failed calls\<close>

text \<open>
  Claim C7. Every transaction that reverts, whatever the call and the error, leaves
  the whole storage as it was: no event is appended to the log, and \<open>getCount\<close>,
  \<open>hasUserSubmitted\<close>, \<open>getPendingHandle\<close> and \<open>getLastAverage\<close> answer as before.
  Moreover the policy violations (\<open>AlreadySubmitted\<close>, \<open>NoSalariesSubmitted\<close>,
  \<open>NoPendingDecryption\<close>, \<open>HandleAlreadyUsed\<close>) and the cryptographic failures
  (\<open>InvalidInputProof\<close>, and \<open>CheckSignaturesRevert\<close> for a decryption proof that
  does not verify) are detected before the function
  has written anything: the storage at the revert is the storage before the call.
\<close>

theorem failed_call_has_no_effect:
  "(fst (transact e c s) = Reverted err \<longrightarrow>
      snd (transact e c s) = s \<and>
      events (snd (transact e c s)) = events s \<and>
      getCount (snd (transact e c s)) = getCount s \<and>
      (\<forall>user. hasUserSubmitted (snd (transact e c s)) user = hasUserSubmitted s user) \<and>
      (\<forall>user. getPendingHandle (snd (transact e c s)) user = getPendingHandle s user) \<and>
      (\<forall>user. getLastAverage (snd (transact e c s)) user = getLastAverage s user)) \<and>
   (addSalary e p ext ipf s = Inl (err, sp) \<and> err \<noteq> Panic_0x11 \<longrightarrow>
      (err = AlreadySubmitted \<or> err = InvalidInputProof) \<and> sp = s) \<and>
   (requestAverageDecryption e p s = Inl (err, sp) \<longrightarrow> err = NoSalariesSubmitted \<and> sp = s) \<and>
   (verifyDecryption e p ct pf s = Inl (err, sp) \<longrightarrow>
      (err = NoPendingDecryption \<or> err = HandleAlreadyUsed \<or> err = CheckSignaturesRevert \<or>
       err = AbiDecodeRevert) \<and> sp = s)"
proof (intro conjI impI)
  assume "fst (transact e c s) = Reverted err"
  then have eq: "snd (transact e c s) = s" by (rule transact_reverted)
  show "snd (transact e c s) = s" by (rule eq)
  show "events (snd (transact e c s)) = events s" unfolding eq by (rule refl)
  show "getCount (snd (transact e c s)) = getCount s" unfolding eq by (rule refl)
  show "\<forall>user. hasUserSubmitted (snd (transact e c s)) user = hasUserSubmitted s user"
    unfolding eq by simp
  show "\<forall>user. getPendingHandle (snd (transact e c s)) user = getPendingHandle s user"
    unfolding eq by simp
  show "\<forall>user. getLastAverage (snd (transact e c s)) user = getLastAverage s user"
    unfolding eq by simp
next
  assume a: "addSalary e p ext ipf s = Inl (err, sp) \<and> err \<noteq> Panic_0x11"
  then show "err = AlreadySubmitted \<or> err = InvalidInputProof"
    by (auto simp: addSalary_cases Let_def split: if_splits option.splits)
  from a show "sp = s"
    by (auto simp: addSalary_cases Let_def split: if_splits option.splits)
next
  assume a: "requestAverageDecryption e p s = Inl (err, sp)"
  then show "err = NoSalariesSubmitted"
    by (auto simp: requestAverageDecryption_cases Let_def split: if_splits)
  from a show "sp = s"
    by (auto simp: requestAverageDecryption_cases Let_def split: if_splits)
next
  assume a: "verifyDecryption e p ct pf s = Inl (err, sp)"
  then show "err = NoPendingDecryption \<or> err = HandleAlreadyUsed \<or>
      err = CheckSignaturesRevert \<or> err = AbiDecodeRevert"
    by (auto simp: verifyDecryption_cases split: if_splits option.splits)
  from a show "sp = s"
    by (auto simp: verifyDecryption_cases split: if_splits option.splits)
qed

text \<open>
  One failing call of each kind: a second submission by Alice, a submission with an
  empty input proof, a request before any submission, a verification with nothing
  pending, with a consumed handle, and with a proof that does not verify.
\<close>

theorem failed_call_has_no_effect_witness:
  "fst (transact mock (AddSalary alice 50000 [1]) (reachable mock three_salaries)) =
     Reverted AlreadySubmitted \<and>
   snd (transact mock (AddSalary alice 50000 [1]) (reachable mock three_salaries)) =
     reachable mock three_salaries \<and>
   addSalary mock dave 50000 [] (reachable mock three_salaries) =
     Inl (InvalidInputProof, reachable mock three_salaries) \<and>
   requestAverageDecryption mock dave constructor = Inl (NoSalariesSubmitted, constructor) \<and>
   verifyDecryption mock dave [] [] constructor = Inl (NoPendingDecryption, constructor) \<and>
   verifyDecryption mock dave (cleartext 0xEA 0x60) [1] consumed_state =
     Inl (HandleAlreadyUsed, consumed_state) \<and>
   verifyDecryption mock dave (cleartext 0xC3 0x50) [1] pending_state =
     Inl (CheckSignaturesRevert, pending_state)"
proof -
  let ?s = "reachable mock three_salaries"
  have h: "hasSubmitted ?s alice \<and> \<not> hasSubmitted ?s dave"
    by (simp add: mock_defs body_defs)
  then have f1: "fst (transact mock (AddSalary alice 50000 [1]) ?s) = Reverted AlreadySubmitted"
    by (simp add: addSalary_cases)
  from h obtain sp where f2: "addSalary mock dave 50000 [] ?s = Inl (InvalidInputProof, sp)"
    by (simp add: addSalary_cases mock_def)
  obtain sp3 where f3: "requestAverageDecryption mock dave constructor =
      Inl (NoSalariesSubmitted, sp3)"
    by (simp add: requestAverageDecryption_cases constructor_def)
  obtain sp4 where f4: "verifyDecryption mock dave [] [] constructor =
      Inl (NoPendingDecryption, sp4)"
    by (simp add: verifyDecryption_cases constructor_def)
  obtain sp5 where f5: "verifyDecryption mock dave (cleartext 0xEA 0x60) [1] consumed_state =
      Inl (HandleAlreadyUsed, sp5)"
    using consumed_state_facts by (simp add: verifyDecryption_cases)
  have "\<not> FHE_checkSignatures mock [60000] (cleartext 0xC3 0x50) [1]"
    by (simp add: mock_def mock_checkSignatures_def cleartext_50000)
  then obtain sp6 where f6: "verifyDecryption mock dave (cleartext 0xC3 0x50) [1] pending_state =
      Inl (CheckSignaturesRevert, sp6)"
    using pending_state_facts by (simp add: verifyDecryption_cases)
  from failed_call_has_no_effect
    [where e = mock and c = "AddSalary alice 50000 [1]" and s = ?s and err = AlreadySubmitted] f1
  have r1: "snd (transact mock (AddSalary alice 50000 [1]) ?s) = ?s" by blast
  from failed_call_has_no_effect
    [where e = mock and s = ?s and err = InvalidInputProof and p = dave and ext = 50000
       and ipf = "[]" and sp = sp] f2
  have r2: "sp = ?s" by simp
  from failed_call_has_no_effect
    [where e = mock and s = constructor and err = NoSalariesSubmitted and p = dave
       and sp = sp3] f3
  have r3: "sp3 = constructor" by simp
  from failed_call_has_no_effect
    [where e = mock and s = constructor and err = NoPendingDecryption and p = dave
       and ct = "[]" and pf = "[]" and sp = sp4] f4
  have r4: "sp4 = constructor" by simp
  from failed_call_has_no_effect
    [where e = mock and s = consumed_state and err = HandleAlreadyUsed and p = dave
       and ct = "cleartext 0xEA 0x60" and pf = "[1]" and sp = sp5] f5
  have r5: "sp5 = consumed_state" by simp
  from failed_call_has_no_effect
    [where e = mock and s = pending_state and err = CheckSignaturesRevert and p = dave
       and ct = "cleartext 0xC3 0x50" and pf = "[1]" and sp = sp6] f6
  have r6: "sp6 = pending_state" by simp
  from f1 r1 f2 r2 f3 r3 f4 r4 f5 r5 f6 r6 show ?thesis by simp
qed

subsection \<open>The aggregate\<close>

lemma total_zero_transact:
  "(count s = 0 \<longrightarrow> encryptedTotal s = 0) \<Longrightarrow>
   count (snd (transact e c s)) = 0 \<longrightarrow> encryptedTotal (snd (transact e c s)) = 0"
  by (cases c)
     (auto simp: body_cases Let_def count_succ_ne0
           split: sum.splits prod.splits if_splits option.splits)

lemma total_zero_run:
  "(count s = 0 \<longrightarrow> encryptedTotal s = 0) \<Longrightarrow>
   count (run e cs s) = 0 \<longrightarrow> encryptedTotal (run e cs s) = 0"
proof (induction cs arbitrary: s)
  case Nil
  then show ?case by simp
next
  case (Cons c cs)
  from Cons.prems
  have "count (snd (transact e c s)) = 0 \<longrightarrow> encryptedTotal (snd (transact e c s)) = 0"
    by (rule total_zero_transact)
  then have "count (run e cs (snd (transact e c s))) = 0 \<longrightarrow>
      encryptedTotal (run e cs (snd (transact e c s))) = 0"
    by (rule Cons.IH)
  then show ?case by simp
qed

lemma count_zero_transact:
  assumes "handles_initialized e" and "encryptedTotal s = 0 \<longrightarrow> count s = 0"
  shows "encryptedTotal (snd (transact e c s)) = 0 \<longrightarrow> count (snd (transact e c s)) = 0"
proof (cases c)
  case (AddSalary p ext ipf)
  from assms(1) have fe: "\<And>sender ct pf. FHE_fromExternal e sender ct pf \<noteq> Some 0"
    and ad: "\<And>a b. FHE_add e a b \<noteq> 0"
    by (simp_all add: handles_initialized_def)
  show ?thesis
  proof (cases "addSalary e p ext ipf s")
    case (Inl a)
    with AddSalary assms(2) show ?thesis by (simp split: prod.splits)
  next
    case (Inr b)
    then obtain salary where f: "FHE_fromExternal e p ext ipf = Some salary"
      by (auto simp: addSalary_cases split: if_splits option.splits)
    with fe [of p ext ipf] have nz: "salary \<noteq> 0" by auto
    from Inr f nz ad [of "encryptedTotal s" salary]
    have "encryptedTotal (snd b) \<noteq> 0"
      by (auto simp: addSalary_cases Let_def split: if_splits)
    with AddSalary Inr show ?thesis by (auto split: prod.splits)
  qed
next
  case (RequestAverageDecryption r)
  with assms(2) show ?thesis
    by (auto simp: requestAverageDecryption_cases Let_def split: if_splits)
next
  case (VerifyDecryption r ct pf)
  with assms(2) show ?thesis
    by (auto simp: verifyDecryption_cases split: if_splits option.splits)
qed

lemma count_zero_run:
  assumes "handles_initialized e"
  shows "(encryptedTotal s = 0 \<longrightarrow> count s = 0) \<Longrightarrow>
     encryptedTotal (run e cs s) = 0 \<longrightarrow> count (run e cs s) = 0"
proof (induction cs arbitrary: s)
  case Nil
  then show ?case by simp
next
  case (Cons c cs)
  from assms Cons.prems
  have "encryptedTotal (snd (transact e c s)) = 0 \<longrightarrow> count (snd (transact e c s)) = 0"
    by (rule count_zero_transact)
  then have "encryptedTotal (run e cs (snd (transact e c s))) = 0 \<longrightarrow>
      count (run e cs (snd (transact e c s))) = 0"
    by (rule Cons.IH)
  then show ?case by simp
qed

text \<open>
  Claim C8. In every storage reached from deployment, \<open>count\<close> is 0 exactly when
  \<open>encryptedTotal\<close> is uninitialized (\<open>bytes32(0)\<close>); the direction from an
  uninitialized total to a zero count holds for an engine whose handles are
  initialized. Across every transaction and every sequence of transactions \<open>count\<close>
  never decreases and never wraps around; it changes only in an \<open>addSalary\<close> that
  returns, and every \<open>addSalary\<close> that returns increases it by exactly 1.
\<close>

theorem count_and_total_invariant:
  "(count (reachable e cs) = 0 \<longrightarrow> encryptedTotal (reachable e cs) = 0) \<and>
   (handles_initialized e \<longrightarrow>
      (count (reachable e cs) = 0 \<longleftrightarrow> encryptedTotal (reachable e cs) = 0)) \<and>
   unat (count s) \<le> unat (count (snd (transact e c s))) \<and>
   unat (count s) \<le> unat (count (run e cs s)) \<and>
   (count (snd (transact e c s)) \<noteq> count s \<longrightarrow>
      (\<exists>p ext ipf. c = AddSalary p ext ipf) \<and> fst (transact e c s) = Returned) \<and>
   (fst (transact e (AddSalary p ext ipf) s) = Returned \<longrightarrow>
      unat (count (snd (transact e (AddSalary p ext ipf) s))) = unat (count s) + 1)"
proof (intro conjI)
  have i: "count constructor = 0 \<longrightarrow> encryptedTotal constructor = 0"
    and j: "encryptedTotal constructor = 0 \<longrightarrow> count constructor = 0"
    by (simp_all add: constructor_def)
  from i show a: "count (reachable e cs) = 0 \<longrightarrow> encryptedTotal (reachable e cs) = 0"
    unfolding reachable_def by (rule total_zero_run)
  show "handles_initialized e \<longrightarrow>
      (count (reachable e cs) = 0 \<longleftrightarrow> encryptedTotal (reachable e cs) = 0)"
  proof
    assume "handles_initialized e"
    then have "encryptedTotal (reachable e cs) = 0 \<longrightarrow> count (reachable e cs) = 0"
      unfolding reachable_def using j by (rule count_zero_run)
    with a show "count (reachable e cs) = 0 \<longleftrightarrow> encryptedTotal (reachable e cs) = 0"
      by blast
  qed
  show "unat (count s) \<le> unat (count (snd (transact e c s)))"
    by (rule count_transact_le)
  show "unat (count s) \<le> unat (count (run e cs s))"
    by (rule count_run_le)
  show "count (snd (transact e c s)) \<noteq> count s \<longrightarrow>
      (\<exists>p ext ipf. c = AddSalary p ext ipf) \<and> fst (transact e c s) = Returned"
    using count_transact [of e c s] by blast
  show "fst (transact e (AddSalary p ext ipf) s) = Returned \<longrightarrow>
      unat (count (snd (transact e (AddSalary p ext ipf) s))) = unat (count s) + 1"
    by (auto simp: addSalary_cases Let_def unat_count_Suc
        split: sum.splits prod.splits if_splits option.splits)
qed

text \<open>
  At deployment both sides hold; after the three submissions of the scenario neither
  does, and the third submission, Charlie's, took the count from 2 to 3.
\<close>

theorem count_and_total_invariant_witness:
  "handles_initialized mock \<and>
   count (reachable mock []) = 0 \<and> encryptedTotal (reachable mock []) = 0 \<and>
   count (reachable mock three_salaries) \<noteq> 0 \<and>
   encryptedTotal (reachable mock three_salaries) \<noteq> 0 \<and>
   fst (transact mock (AddSalary charlie 70000 [1])
     (reachable mock [AddSalary alice 50000 [1], AddSalary bob 60000 [1]])) = Returned \<and>
   unat (count (snd (transact mock (AddSalary charlie 70000 [1])
     (reachable mock [AddSalary alice 50000 [1], AddSalary bob 60000 [1]])))) =
     unat (count (reachable mock [AddSalary alice 50000 [1], AddSalary bob 60000 [1]])) + 1 \<and>
   count (snd (transact mock (AddSalary charlie 70000 [1])
     (reachable mock [AddSalary alice 50000 [1], AddSalary bob 60000 [1]]))) \<noteq>
     count (reachable mock [AddSalary alice 50000 [1], AddSalary bob 60000 [1]])"
proof -
  let ?s2 = "reachable mock [AddSalary alice 50000 [1], AddSalary bob 60000 [1]]"
  let ?c = "AddSalary charlie 70000 [1]"
  have c0: "count (reachable mock []) = 0"
    by (simp add: reachable_def constructor_def)
  have c3: "count (reachable mock three_salaries) \<noteq> 0"
    using three_salaries_facts by simp
  have r: "fst (transact mock ?c ?s2) = Returned"
    by (simp add: mock_defs body_defs)
  have n: "count (snd (transact mock ?c ?s2)) \<noteq> count ?s2"
    by (simp add: mock_defs body_defs)
  note t0 = count_and_total_invariant [of mock "[]" ?s2 ?c charlie 70000 "[1]"]
  note t3 = count_and_total_invariant [of mock three_salaries ?s2 ?c charlie 70000 "[1]"]
  from t0 c0 mock_handles_initialized have z: "encryptedTotal (reachable mock []) = 0"
    by blast
  from t3 c3 mock_handles_initialized
  have nz: "encryptedTotal (reachable mock three_salaries) \<noteq> 0"
    by blast
  from t3 r have "unat (count (snd (transact mock ?c ?s2))) = unat (count ?s2) + 1"
    by blast
  with mock_handles_initialized c0 z c3 nz r n show ?thesis by blast
qed

subsection \<open>Pending requests\<close>

lemma pending_transact:
  assumes "pendingDecryptionHandles s r = 0 \<or> pendingDecryptionHandles s r = h"
  shows "pendingDecryptionHandles (snd (transact e c s)) r = 0 \<or>
     pendingDecryptionHandles (snd (transact e c s)) r =
       (if c = RequestAverageDecryption r
        then (case fst (transact e c s) of ReturnedHandle h' \<Rightarrow> h' | _ \<Rightarrow> h)
        else h)"
proof (cases c)
  case (AddSalary p ext ipf)
  with assms show ?thesis
    by (auto simp: addSalary_cases Let_def split: sum.splits prod.splits if_splits option.splits)
next
  case (RequestAverageDecryption r')
  with assms show ?thesis
    by (auto simp: requestAverageDecryption_cases Let_def split: if_splits)
next
  case (VerifyDecryption r' ct pf)
  with assms show ?thesis
    by (auto simp: verifyDecryption_cases split: if_splits option.splits)
qed

lemma pending_run:
  "pendingDecryptionHandles s r = 0 \<or> pendingDecryptionHandles s r = h \<Longrightarrow>
   pendingDecryptionHandles (run e cs s) r = 0 \<or>
   pendingDecryptionHandles (run e cs s) r = latest_request e r cs s h"
proof (induction cs arbitrary: s h)
  case Nil
  then show ?case by simp
next
  case (Cons c cs)
  let ?h = "if c = RequestAverageDecryption r
        then (case fst (transact e c s) of ReturnedHandle h' \<Rightarrow> h' | _ \<Rightarrow> h)
        else h"
  from Cons.prems
  have "pendingDecryptionHandles (snd (transact e c s)) r = 0 \<or>
     pendingDecryptionHandles (snd (transact e c s)) r = ?h"
    by (rule pending_transact)
  then have "pendingDecryptionHandles (run e cs (snd (transact e c s))) r = 0 \<or>
     pendingDecryptionHandles (run e cs (snd (transact e c s))) r =
       latest_request e r cs (snd (transact e c s)) ?h"
    by (rule Cons.IH)
  then show ?case by simp
qed

text \<open>
  Claim C9, as stated, fails: it is not always the replay guard or the "no pending"
  check that rejects a verification against a stale handle. In \<open>stale_state\<close> Dave's
  first handle 50000 has been overwritten by 55000; he submits the cleartext and a
  proof that verify for the stale handle. The stored handle is not empty and not in
  the replay guard, so both checks pass; the call reverts in the third check, where
  the proof is checked against the stored handle.
\<close>

theorem stale_handle_counterexample:
  "pendingDecryptionHandles stale_state dave = 55000 \<and>
   pendingDecryptionHandles stale_state dave \<noteq> 0 \<and>
   \<not> usedHandles stale_state (pendingDecryptionHandles stale_state dave) \<and>
   \<not> usedHandles stale_state 50000 \<and>
   FHE_checkSignatures mock [50000] (cleartext 0xC3 0x50) [1] \<and>
   fst (transact mock (VerifyDecryption dave (cleartext 0xC3 0x50) [1]) stale_state) \<noteq>
     Reverted NoPendingDecryption \<and>
   fst (transact mock (VerifyDecryption dave (cleartext 0xC3 0x50) [1]) stale_state) \<noteq>
     Reverted HandleAlreadyUsed \<and>
   snd (transact mock (VerifyDecryption dave (cleartext 0xC3 0x50) [1]) stale_state) =
     stale_state \<and>
   (\<exists>err. fst (transact mock (VerifyDecryption dave (cleartext 0xC3 0x50) [1]) stale_state) =
      Reverted err)"
proof -
  have f: "pendingDecryptionHandles stale_state dave = 55000 \<and>
      \<not> usedHandles stale_state 55000 \<and> \<not> usedHandles stale_state 50000"
    by (simp add: stale_state_def mock_defs body_defs)
  have c: "FHE_checkSignatures mock [50000] (cleartext 0xC3 0x50) [1]"
    and n: "\<not> FHE_checkSignatures mock [55000] (cleartext 0xC3 0x50) [1]"
    by (simp_all add: mock_def mock_checkSignatures_def cleartext_50000)
  from f n have "transact mock (VerifyDecryption dave (cleartext 0xC3 0x50) [1]) stale_state =
     (Reverted CheckSignaturesRevert, stale_state)"
    by (simp add: verifyDecryption_cases)
  with f c show ?thesis by simp
qed

text \<open>
  Claim C9, amended. A requester has at most one pending handle: the handle a
  \<open>requestAverageDecryption\<close> returns overwrites the stored one. A stale handle can
  never be verified by that requester, because \<open>verifyDecryption\<close> takes no handle and
  checks the proof against the stored handle only: whether the pair verifies for any
  other handle does not matter, and a pair that does not verify for the stored handle
  is rejected by the "no pending" check when the stored handle is empty, by the replay
  guard when the stored handle is consumed, and otherwise by the proof check. A
  verification that returns has checked the proof against the stored handle, which
  was pending and not consumed, and has put no other handle into the replay guard.
  After every sequence of transactions the stored handle is empty or the handle
  returned by the requester's latest request; so for a requester who requested \<open>h1\<close>
  and then \<open>h2\<close>, \<open>verifyDecryption\<close> proceeds only against \<open>h2\<close>, and no
  verification of the requester records a result for a handle \<open>h1\<close> other than the
  one of the latest request.
\<close>

theorem stale_handle_never_verified:
  "(requestAverageDecryption e r s = Inr (h2, s2) \<longrightarrow>
      pendingDecryptionHandles s2 r = h2 \<and>
      (\<forall>s'. verifyDecryption e r ct pf s2 = Inr ((), s') \<longrightarrow>
         FHE_checkSignatures e [h2] ct pf \<and>
         (\<forall>h1. h1 \<noteq> h2 \<longrightarrow> usedHandles s' h1 = usedHandles s2 h1))) \<and>
   verifyDecryption
     (e\<lparr>FHE_checkSignatures :=
          (\<lambda>hs. if hs = [pendingDecryptionHandles s r] then FHE_checkSignatures e hs
                 else other hs)\<rparr>) r ct pf s =
     verifyDecryption e r ct pf s \<and>
   (\<not> FHE_checkSignatures e [pendingDecryptionHandles s r] ct pf \<longrightarrow>
      verifyDecryption e r ct pf s =
        Inl (if pendingDecryptionHandles s r = 0 then NoPendingDecryption
             else if usedHandles s (pendingDecryptionHandles s r) then HandleAlreadyUsed
             else CheckSignaturesRevert, s)) \<and>
   (verifyDecryption e r ct pf s = Inr ((), s') \<longrightarrow>
      pendingDecryptionHandles s r \<noteq> 0 \<and>
      \<not> usedHandles s (pendingDecryptionHandles s r) \<and>
      FHE_checkSignatures e [pendingDecryptionHandles s r] ct pf \<and>
      (\<forall>h. h \<noteq> pendingDecryptionHandles s r \<longrightarrow> usedHandles s' h = usedHandles s h)) \<and>
   (pendingDecryptionHandles (run e cs s) r = 0 \<or>
    pendingDecryptionHandles (run e cs s) r =
      latest_request e r cs s (pendingDecryptionHandles s r)) \<and>
   (h1 \<noteq> latest_request e r cs s (pendingDecryptionHandles s r) \<longrightarrow>
      (\<forall>ct' pf' s'. verifyDecryption e r ct' pf' (run e cs s) = Inr ((), s') \<longrightarrow>
         pendingDecryptionHandles (run e cs s) r \<noteq> h1 \<and>
         usedHandles s' h1 = usedHandles (run e cs s) h1))"
proof (intro conjI impI allI)
  assume q: "requestAverageDecryption e r s = Inr (h2, s2)"
  then show p2: "pendingDecryptionHandles s2 r = h2"
    by (auto simp: requestAverageDecryption_cases Let_def split: if_splits)
  fix s'
  assume v: "verifyDecryption e r ct pf s2 = Inr ((), s')"
  with p2 show "FHE_checkSignatures e [h2] ct pf"
    by (auto simp: verifyDecryption_cases split: if_splits option.splits)
  fix h1
  assume "h1 \<noteq> h2"
  with v p2 show "usedHandles s' h1 = usedHandles s2 h1"
    by (auto simp: verifyDecryption_cases split: if_splits option.splits)
next
  show "verifyDecryption
     (e\<lparr>FHE_checkSignatures :=
          (\<lambda>hs. if hs = [pendingDecryptionHandles s r] then FHE_checkSignatures e hs
                 else other hs)\<rparr>) r ct pf s =
     verifyDecryption e r ct pf s"
    by (simp add: verifyDecryption_cases)
next
  assume "\<not> FHE_checkSignatures e [pendingDecryptionHandles s r] ct pf"
  then show "verifyDecryption e r ct pf s =
        Inl (if pendingDecryptionHandles s r = 0 then NoPendingDecryption
             else if usedHandles s (pendingDecryptionHandles s r) then HandleAlreadyUsed
             else CheckSignaturesRevert, s)"
    by (simp add: verifyDecryption_cases)
next
  assume a: "verifyDecryption e r ct pf s = Inr ((), s')"
  then show "pendingDecryptionHandles s r \<noteq> 0"
    by (auto simp: verifyDecryption_cases split: if_splits option.splits)
  from a show "\<not> usedHandles s (pendingDecryptionHandles s r)"
    by (auto simp: verifyDecryption_cases split: if_splits option.splits)
  from a show "FHE_checkSignatures e [pendingDecryptionHandles s r] ct pf"
    by (auto simp: verifyDecryption_cases split: if_splits option.splits)
  fix h
  assume "h \<noteq> pendingDecryptionHandles s r"
  with a show "usedHandles s' h = usedHandles s h"
    by (auto simp: verifyDecryption_cases split: if_splits option.splits)
next
  show "pendingDecryptionHandles (run e cs s) r = 0 \<or>
    pendingDecryptionHandles (run e cs s) r =
      latest_request e r cs s (pendingDecryptionHandles s r)"
    by (rule pending_run) simp
next
  fix ct' pf' s'
  assume n: "h1 \<noteq> latest_request e r cs s (pendingDecryptionHandles s r)"
    and v: "verifyDecryption e r ct' pf' (run e cs s) = Inr ((), s')"
  have l: "pendingDecryptionHandles (run e cs s) r = 0 \<or>
    pendingDecryptionHandles (run e cs s) r =
      latest_request e r cs s (pendingDecryptionHandles s r)"
    by (rule pending_run) simp
  from v have nz: "pendingDecryptionHandles (run e cs s) r \<noteq> 0"
    by (auto simp: verifyDecryption_cases split: if_splits option.splits)
  with l n show ne: "pendingDecryptionHandles (run e cs s) r \<noteq> h1" by auto
  with v show "usedHandles s' h1 = usedHandles (run e cs s) h1"
    by (auto simp: verifyDecryption_cases split: if_splits option.splits)
qed

lemma verified_state_facts:
  "pendingDecryptionHandles
     (run mock [VerifyDecryption dave (cleartext 0xD6 0xD8) [1]] stale_state) dave = 0"
  by (simp add: stale_state_def mock_defs body_defs)

lemma consumed_by_other_facts:
  "pendingDecryptionHandles
     (run mock [RequestAverageDecryption alice, VerifyDecryption alice (cleartext 0xD6 0xD8) [1]]
        stale_state) dave = 55000 \<and>
   usedHandles
     (run mock [RequestAverageDecryption alice, VerifyDecryption alice (cleartext 0xD6 0xD8) [1]]
        stale_state) 55000"
  by (simp add: stale_state_def mock_defs body_defs)

text \<open>
  In \<open>stale_state\<close>: a further request by Dave returns 55000 again. The pair for the
  stale handle 50000 is rejected by the proof check while 55000 is pending and not
  consumed, by the "no pending" check once Dave has verified 55000, and by the replay
  guard once Alice, who was given the same handle, has verified it. The pair for
  55000 is accepted and consumes 55000 only. After Charlie submits, Dave requests once
  more and tries the stale pair again: the handle of his latest request is 60000, and
  the verification that then returns records nothing for 50000.
\<close>

theorem stale_handle_never_verified_witness:
  "(\<exists>s2. requestAverageDecryption mock dave stale_state = Inr (55000, s2) \<and>
      pendingDecryptionHandles s2 dave = 55000) \<and>
   \<not> FHE_checkSignatures mock [pendingDecryptionHandles stale_state dave]
       (cleartext 0xC3 0x50) [1] \<and>
   verifyDecryption mock dave (cleartext 0xC3 0x50) [1] stale_state =
     Inl (CheckSignaturesRevert, stale_state) \<and>
   verifyDecryption mock dave (cleartext 0xC3 0x50) [1]
     (run mock [VerifyDecryption dave (cleartext 0xD6 0xD8) [1]] stale_state) =
     Inl (NoPendingDecryption,
          run mock [VerifyDecryption dave (cleartext 0xD6 0xD8) [1]] stale_state) \<and>
   verifyDecryption mock dave (cleartext 0xC3 0x50) [1]
     (run mock [RequestAverageDecryption alice, VerifyDecryption alice (cleartext 0xD6 0xD8) [1]]
        stale_state) =
     Inl (HandleAlreadyUsed,
          run mock
            [RequestAverageDecryption alice, VerifyDecryption alice (cleartext 0xD6 0xD8) [1]]
            stale_state) \<and>
   (\<exists>s'. verifyDecryption mock dave (cleartext 0xD6 0xD8) [1] stale_state = Inr ((), s') \<and>
      usedHandles s' 50000 = usedHandles stale_state 50000) \<and>
   latest_request mock dave
     [AddSalary charlie 70000 [1], RequestAverageDecryption dave,
      VerifyDecryption dave (cleartext 0xC3 0x50) [1]] stale_state
     (pendingDecryptionHandles stale_state dave) = 60000 \<and>
   (50000 :: bytes32) \<noteq> 60000 \<and>
   (\<exists>s'. verifyDecryption mock dave (cleartext 0xEA 0x60) [1]
      (run mock
        [AddSalary charlie 70000 [1], RequestAverageDecryption dave,
         VerifyDecryption dave (cleartext 0xC3 0x50) [1]] stale_state) = Inr ((), s') \<and>
      usedHandles s' 50000 =
        usedHandles
          (run mock
            [AddSalary charlie 70000 [1], RequestAverageDecryption dave,
             VerifyDecryption dave (cleartext 0xC3 0x50) [1]] stale_state) 50000)"
proof -
  let ?cs = "[AddSalary charlie 70000 [1], RequestAverageDecryption dave,
      VerifyDecryption dave (cleartext 0xC3 0x50) [1]]"
  let ?sv = "run mock [VerifyDecryption dave (cleartext 0xD6 0xD8) [1]] stale_state"
  let ?so = "run mock
      [RequestAverageDecryption alice, VerifyDecryption alice (cleartext 0xD6 0xD8) [1]]
      stale_state"
  let ?stale = "cleartext 0xC3 0x50"
  have p: "pendingDecryptionHandles stale_state dave = 55000"
    and u: "\<not> usedHandles stale_state 55000"
    and d: "FHE_div mock (encryptedTotal stale_state) (count stale_state) = 55000"
    and c: "count stale_state \<noteq> 0"
    using stale_state_facts by (simp_all add: mock_def)
  obtain s2 where r: "requestAverageDecryption mock dave stale_state = Inr (55000, s2)"
    using c d by (simp add: requestAverageDecryption_cases Let_def)
  have n55: "\<not> FHE_checkSignatures mock [55000] ?stale [1]"
    and n0: "\<not> FHE_checkSignatures mock [0] ?stale [1]"
    and y: "FHE_checkSignatures mock [55000] (cleartext 0xD6 0xD8) [1]"
    by (simp_all add: mock_def mock_checkSignatures_def cleartext_50000 cleartext_55000)
  from n55 p have n: "\<not> FHE_checkSignatures mock [pendingDecryptionHandles stale_state dave]
      ?stale [1]" by simp
  have pv: "pendingDecryptionHandles ?sv dave = 0" by (rule verified_state_facts)
  have po: "pendingDecryptionHandles ?so dave = 55000" and uo: "usedHandles ?so 55000"
    using consumed_by_other_facts by simp_all
  obtain s' where v: "verifyDecryption mock dave (cleartext 0xD6 0xD8) [1] stale_state =
      Inr ((), s')"
    using p u y by (simp add: verifyDecryption_cases cleartext_55000)
  have i: "latest_request mock dave ?cs stale_state (pendingDecryptionHandles stale_state dave) =
      60000"
    by (simp add: stale_state_def mock_defs body_defs)
  have ne: "(50000 :: bytes32) \<noteq> 60000" by simp
  have pc: "pendingDecryptionHandles (run mock ?cs stale_state) dave = 60000 \<and>
      \<not> usedHandles (run mock ?cs stale_state) 60000"
    by (simp add: stale_state_def mock_defs body_defs)
  have y6: "FHE_checkSignatures mock [60000] (cleartext 0xEA 0x60) [1]"
    by (simp add: mock_def mock_checkSignatures_def cleartext_60000)
  obtain s6 where v6: "verifyDecryption mock dave (cleartext 0xEA 0x60) [1]
      (run mock ?cs stale_state) = Inr ((), s6)"
    using pc y6 by (simp add: verifyDecryption_cases cleartext_60000 del: run.simps)
  note t = stale_handle_never_verified [where e = mock and r = dave]
  from t [where s = stale_state and ?h2.0 = 55000 and ?s2.0 = s2] r
  have a: "pendingDecryptionHandles s2 dave = 55000" by blast
  from t [where s = stale_state and ct = ?stale and pf = "[1]"] n p u
  have b1: "verifyDecryption mock dave ?stale [1] stale_state =
     Inl (CheckSignaturesRevert, stale_state)" by simp
  from t [where s = ?sv and ct = ?stale and pf = "[1]"] pv n0
  have b2: "verifyDecryption mock dave ?stale [1] ?sv = Inl (NoPendingDecryption, ?sv)"
    by (simp del: run.simps)
  from t [where s = ?so and ct = ?stale and pf = "[1]"] po uo n55
  have b3: "verifyDecryption mock dave ?stale [1] ?so = Inl (HandleAlreadyUsed, ?so)"
    by (simp del: run.simps)
  from t [where s = stale_state and ct = "cleartext 0xD6 0xD8" and pf = "[1]" and s' = s'] v p
  have e: "usedHandles s' 50000 = usedHandles stale_state 50000" by simp
  from t [where s = stale_state and cs = ?cs and ?h1.0 = 50000] i ne v6
  have f: "usedHandles s6 50000 = usedHandles (run mock ?cs stale_state) 50000"
    by (simp del: run.simps latest_request.simps)
  from r a have x1: "\<exists>s2. requestAverageDecryption mock dave stale_state = Inr (55000, s2) \<and>
      pendingDecryptionHandles s2 dave = 55000" by blast
  from v e have x2: "\<exists>s'. verifyDecryption mock dave (cleartext 0xD6 0xD8) [1] stale_state =
      Inr ((), s') \<and> usedHandles s' 50000 = usedHandles stale_state 50000" by blast
  from v6 f have x3: "\<exists>s'. verifyDecryption mock dave (cleartext 0xEA 0x60) [1]
      (run mock ?cs stale_state) = Inr ((), s') \<and>
      usedHandles s' 50000 = usedHandles (run mock ?cs stale_state) 50000" by blast
  from x1 n b1 b2 b3 x2 i ne x3 show ?thesis by (intro conjI)
qed

text \<open>
  Claim C10. The absence of a pending request is the handle \<open>bytes32(0)\<close>:
  \<open>verifyDecryption\<close> reverts with \<open>NoPendingDecryption\<close> exactly when the
  requester's stored handle is \<open>bytes32(0)\<close>, and \<open>getPendingHandle\<close> returns the
  stored handle, hence \<open>bytes32(0)\<close> then. Consequently, when the engine's division
  returns a handle whose unwrapped value is \<open>bytes32(0)\<close>, the request returns and
  stores it, \<open>getPendingHandle\<close> answers as it does with no request, and every
  verification reverts with \<open>NoPendingDecryption\<close>, whatever cleartext and proof.
\<close>

theorem zero_handle_is_no_pending:
  "((\<exists>sp. verifyDecryption e r ct pf s = Inl (NoPendingDecryption, sp)) \<longleftrightarrow>
      pendingDecryptionHandles s r = 0) \<and>
   getPendingHandle s r = pendingDecryptionHandles s r \<and>
   getPendingHandle constructor r = 0 \<and>
   (count s \<noteq> 0 \<and> FHE_div e (encryptedTotal s) (count s) = 0 \<longrightarrow>
      (\<exists>s'. requestAverageDecryption e r s = Inr (0, s') \<and>
         getPendingHandle s' r = getPendingHandle constructor r \<and>
         (\<forall>ct' pf'. verifyDecryption e r ct' pf' s' = Inl (NoPendingDecryption, s'))))"
  by (auto simp: verifyDecryption_cases requestAverageDecryption_cases Let_def
      getPendingHandle_def constructor_def split: option.splits)

text \<open>
  With an engine whose division returns the zero handle, Dave's request after the
  three submissions returns, and is stored as "no request".
\<close>

theorem zero_handle_is_no_pending_witness:
  "count (reachable mock three_salaries) \<noteq> 0 \<and>
   FHE_div (mock\<lparr>FHE_div := (\<lambda>_ _. 0)\<rparr>) (encryptedTotal (reachable mock three_salaries))
     (count (reachable mock three_salaries)) = 0 \<and>
   (\<exists>s'. requestAverageDecryption (mock\<lparr>FHE_div := (\<lambda>_ _. 0)\<rparr>) dave
            (reachable mock three_salaries) = Inr (0, s') \<and>
      getPendingHandle s' dave = 0 \<and>
      verifyDecryption (mock\<lparr>FHE_div := (\<lambda>_ _. 0)\<rparr>) dave (cleartext 0xEA 0x60) [1] s' =
        Inl (NoPendingDecryption, s'))"
proof -
  let ?e = "mock\<lparr>FHE_div := (\<lambda>_ _. 0)\<rparr>"
  let ?s = "reachable mock three_salaries"
  have c: "count ?s \<noteq> 0" using three_salaries_facts by simp
  have d: "FHE_div ?e (encryptedTotal ?s) (count ?s) = 0" by simp
  have z: "getPendingHandle constructor dave = 0"
    by (simp add: getPendingHandle_def constructor_def)
  from zero_handle_is_no_pending [of ?e dave "[]" "[]" ?s] c d z
  have "\<exists>s'. requestAverageDecryption ?e dave ?s = Inr (0, s') \<and>
      getPendingHandle s' dave = 0 \<and>
      verifyDecryption ?e dave (cleartext 0xEA 0x60) [1] s' = Inl (NoPendingDecryption, s')"
    by (metis (no_types, lifting))
  with c d show ?thesis by blast
qed

end
